theory Spec2Isabelle
  imports Complex_Main
begin

section \<open>Python values used by the honeypot\<close>

text \<open>
  Byte strings and text are both lists of characters. Seconds are Python floats in the
  source; they are modelled as exact reals, so rounding is not part of this development.
\<close>

type_synonym bytes = string

text \<open>
  The two slices the source takes, with Python's treatment of the bound: \<open>xs[:k]\<close> and
  \<open>xs[j:]\<close>. A negative bound counts from the end and is clamped at the start of the list;
  a bound past the end is clamped at the end. In particular \<open>xs[-0:]\<close> is \<open>xs[0:]\<close>, the
  whole list.
\<close>

definition slice_to :: "'a list \<Rightarrow> int \<Rightarrow> 'a list" where
  "slice_to xs k =
     (if 0 \<le> k then take (nat k) xs else take (nat (int (length xs) + k)) xs)"

definition slice_from :: "'a list \<Rightarrow> int \<Rightarrow> 'a list" where
  "slice_from xs j =
     (if 0 \<le> j then drop (nat j) xs else drop (nat (int (length xs) + j)) xs)"

text \<open>
  The exceptions that occur. \<open>SocketTimeout\<close> (socket.timeout) and
  \<open>ConnectionResetError\<close> are subclasses of \<open>OSError\<close>, which is what the name
  socket.error stands for; \<open>ValueError\<close> and \<open>OtherException\<close> are not. All of
  them are subclasses of Exception.
\<close>

datatype exn =
    SocketTimeout
  | ConnectionResetError
  | OSError
  | ValueError
  | OtherException

fun is_socket_error :: "exn \<Rightarrow> bool" where
  "is_socket_error SocketTimeout = True"
| "is_socket_error ConnectionResetError = True"
| "is_socket_error OSError = True"
| "is_socket_error _ = False"

section \<open>Configuration\<close>

record config =
  port :: int
  max_connections :: int
  ssh_banner :: string
  banner_delay :: real
  initial_delay :: real
  delay_increment :: real
  max_delay :: real
  log_file :: string
  log_level :: string
  max_log_size :: int
  log_backup_count :: int
  max_input_length :: int
  connection_timeout :: int
  enable_http_stats :: bool
  http_stats_port :: int
  tcp_keepalive :: bool

text \<open>The dictionary of defaults that \<open>DeadlockSSH.__init__\<close> builds.\<close>

definition default_config :: config where
  "default_config =
     \<lparr> port = 2222,
       max_connections = 100,
       ssh_banner = ''SSH-2.0-OpenSSH_8.9p1 Ubuntu-3ubuntu0.1'',
       banner_delay = 1 / 10,
       initial_delay = 1,
       delay_increment = 2,
       max_delay = 60,
       log_file = ''honeypot.log'',
       log_level = ''INFO'',
       max_log_size = 10 * 1024 * 1024,
       log_backup_count = 5,
       max_input_length = 1024,
       connection_timeout = 300,
       enable_http_stats = False,
       http_stats_port = 8080,
       tcp_keepalive = True \<rparr>"

section \<open>Server state and observable effects\<close>

record datetime =
  year :: nat
  month :: nat
  day :: nat
  hour :: nat
  minute :: nat
  second :: nat
  microsecond :: nat

text \<open>
  The \<open>stats\<close> dictionary. \<open>connections_per_ip\<close> is a Counter, a dictionary that keeps
  its keys in insertion order: an association list.
\<close>

record stats =
  total_connections :: int
  active_connections :: int
  connections_per_ip :: "(string \<times> int) list"
  start_time :: datetime

text \<open>
  Log records and console lines carry their data, not the formatted text. The fields of
  \<open>ConnectionFrom\<close> are address, port, attempt number and the delay of this connection.
\<close>

datatype message =
    Initialized
  | ConfigurationLoaded string
  | CouldNotLoadConfiguration string exn
  | UsingDefaultConfiguration
  | ListeningOn int
  | StartingHttpStats int
  | ConnectionFrom string int int real
  | ConnectionTimedOut string
  | ConnectionReset string
  | ErrorHandlingClient string exn
  | ConnectionClosed string
  | DataFrom string bytes
  | SocketErrorMsg exn
  | FailedToStartServer exn
  | ReceivedSignal
  | ShuttingDown
  | FinalStatistics int
  | ShutdownComplete
  | ShutdownRequestedByUser
  | FatalError exn

datatype level = INFO | WARNING | ERROR

text \<open>
  What the process does to the outside world, in order: log records, lines printed on the
  console, calls of \<open>time.sleep\<close>, one entry per successful \<open>send\<close> on a client socket,
  and the closing of sockets.
\<close>

datatype effect =
    Log level message
  | Print message
  | Sleep real
  | Send string bytes
  | CloseClient string
  | CloseServerSocket
  | StartHttpServer int
  | StopHttpServer

record server =
  config :: config
  running :: bool
  ip_delays :: "string \<rightharpoonup> real"
  ip_connection_counts :: "string \<rightharpoonup> int"
  stats :: stats
  http_server_thread :: bool
  effects :: "effect list"

definition emit :: "effect \<Rightarrow> server \<Rightarrow> server" where
  "emit e s = s\<lparr>effects := effects s @ [e]\<rparr>"

text \<open>
  \<open>ip_delays\<close> is a \<open>defaultdict\<close> whose factory returns
  \<open>config["initial_delay"]\<close>: reading a missing key stores the default and returns it.
  \<open>ip_connection_counts\<close> is a \<open>defaultdict(int)\<close>, and a Counter reads a missing key
  as 0; \<open>+= 1\<close> on a new key appends it.
\<close>

definition ip_delays_get :: "server \<Rightarrow> string \<Rightarrow> real \<times> server" where
  "ip_delays_get s ip =
     (case ip_delays s ip of
        Some d \<Rightarrow> (d, s)
      | None \<Rightarrow> (initial_delay (config s),
                 s\<lparr>ip_delays := (ip_delays s)(ip \<mapsto> initial_delay (config s))\<rparr>))"

fun counter_incr :: "(string \<times> int) list \<Rightarrow> string \<Rightarrow> (string \<times> int) list" where
  "counter_incr [] ip = [(ip, 1)]"
| "counter_incr ((k, n) # rest) ip =
     (if k = ip then (k, n + 1) # rest else (k, n) # counter_incr rest ip)"

definition count_get :: "(string \<rightharpoonup> int) \<Rightarrow> string \<Rightarrow> int" where
  "count_get m ip = (case m ip of None \<Rightarrow> 0 | Some n \<Rightarrow> n)"

definition count_incr :: "(string \<rightharpoonup> int) \<Rightarrow> string \<Rightarrow> (string \<rightharpoonup> int)" where
  "count_incr m ip = m(ip \<mapsto> count_get m ip + 1)"

text \<open>
  The state \<open>__init__\<close> sets up for configuration \<open>cfg\<close> at time \<open>now\<close>; the
  running flag is set later, by \<open>start\<close>.
\<close>

definition init_server :: "config \<Rightarrow> datetime \<Rightarrow> server" where
  "init_server cfg now =
     \<lparr> config = cfg,
       running = False,
       ip_delays = Map.empty,
       ip_connection_counts = Map.empty,
       stats = \<lparr> total_connections = 0, active_connections = 0,
                 connections_per_ip = [], start_time = now \<rparr>,
       http_server_thread = False,
       effects = [Log INFO Initialized] \<rparr>"

section \<open>One accepted connection\<close>

text \<open>
  What the client socket does during one session is given from outside:
  whether \<open>settimeout\<close> and \<open>setsockopt\<close> raise, which \<open>send\<close> (counted from 0) is the
  first to raise a socket error, what the successive \<open>recv\<close> calls deliver, and whether
  \<open>close\<close> raises.
\<close>

datatype recv_event =
    RecvData bytes
  | RecvTimeout
  | RecvError

record conn =
  client_ip :: string
  client_port :: int
  settimeout_raises :: "exn option"
  setsockopt_raises :: "exn option"
  send_error_at :: "nat option"
  recv_script :: "recv_event list"
  close_raises :: bool

text \<open>
  \<open>socket.settimeout\<close> raises ValueError for a negative timeout; \<open>time.sleep\<close> raises
  ValueError for a negative duration.
\<close>

definition settimeout :: "conn \<Rightarrow> int \<Rightarrow> exn option" where
  "settimeout c t = (if t < 0 then Some ValueError else settimeout_raises c)"

definition py_sleep :: "real \<Rightarrow> server \<Rightarrow> exn + server" where
  "py_sleep secs s = (if secs < 0 then Inl ValueError else Inr (emit (Sleep secs) s))"

subsection \<open>send_ssh_banner\<close>

text \<open>
  The loop over the characters of the banner. \<open>i\<close> counts the calls of \<open>send\<close>. A socket
  error from \<open>send\<close> or \<open>sleep\<close> leaves the loop; any other exception leaves the
  function, and so the result carries it.
\<close>

fun send_chars :: "conn \<Rightarrow> nat \<Rightarrow> string \<Rightarrow> server \<Rightarrow> server \<times> exn option" where
  "send_chars c i [] s = (s, None)"
| "send_chars c i (ch # rest) s =
     (if send_error_at c = Some i then (s, None)
      else
        (let s1 = emit (Send (client_ip c) [ch]) s
         in (case py_sleep (banner_delay (config s1)) s1 of
               Inl e \<Rightarrow> (if is_socket_error e then (s1, None) else (s1, Some e))
             | Inr s2 \<Rightarrow> send_chars c (Suc i) rest s2)))"

definition send_ssh_banner :: "conn \<Rightarrow> server \<Rightarrow> server \<times> exn option" where
  "send_ssh_banner c s =
     send_chars c 0 (ssh_banner (config s) @ [CHR 0x0D, CHR 0x0A]) s"

subsection \<open>monitor_connection\<close>

definition truncated_marker :: bytes where
  "truncated_marker = ''...[truncated]''"

text \<open>
  What one iteration does with the data of a successful, non-empty \<open>recv\<close>: the new
  buffer after \<open>buffer += data\<close>, what is logged, and the buffer after the trim.
\<close>

definition log_data_of :: "int \<Rightarrow> bytes \<Rightarrow> bytes" where
  "log_data_of m buffer =
     (if int (length buffer) > m then slice_to buffer m @ truncated_marker else buffer)"

definition trim_buffer :: "int \<Rightarrow> bytes \<Rightarrow> bytes" where
  "trim_buffer m buffer =
     (if int (length buffer) > m * 2 then slice_from buffer (- m) else buffer)"

text \<open>
  The loop. The script lists what the successive \<open>recv\<close> calls do while the server keeps
  running; when it is used up, the loop condition is taken to have become false (another
  thread ran \<open>shutdown\<close>). The result holds the state and the value of the local
  variable \<open>buffer\<close> at the end of every iteration, in order. Logged data is kept as the
  bytes handed to \<open>decode\<close>.
\<close>

fun monitor_loop ::
  "string \<Rightarrow> recv_event list \<Rightarrow> bytes \<Rightarrow> server \<Rightarrow> server \<times> bytes list" where
  "monitor_loop ip [] buffer s = (s, [])"
| "monitor_loop ip (ev # evs) buffer s =
     (if \<not> running s then (s, [])
      else
        (case ev of
           RecvData data \<Rightarrow>
             (if data = [] then (s, [buffer])
              else
                (let buffer1 = buffer @ data;
                     m = max_input_length (config s);
                     s1 = emit (Log INFO (DataFrom ip (log_data_of m buffer1))) s;
                     buffer2 = trim_buffer m buffer1;
                     (s2, bufs) = monitor_loop ip evs buffer2 s1
                 in (s2, buffer2 # bufs)))
         | RecvTimeout \<Rightarrow>
             (let (s2, bufs) = monitor_loop ip evs buffer s in (s2, buffer # bufs))
         | RecvError \<Rightarrow> (s, [buffer])))"

definition monitor_connection :: "conn \<Rightarrow> server \<Rightarrow> server" where
  "monitor_connection c s = fst (monitor_loop (client_ip c) (recv_script c) [] s)"

subsection \<open>handle_client\<close>

text \<open>The statistics update of the \<open>try\<close> block.\<close>

definition update_statistics :: "string \<Rightarrow> server \<Rightarrow> server" where
  "update_statistics ip s =
     s\<lparr> stats := (stats s)
           \<lparr> total_connections := total_connections (stats s) + 1,
             active_connections := active_connections (stats s) + 1,
             connections_per_ip := counter_incr (connections_per_ip (stats s)) ip \<rparr>,
        ip_connection_counts := count_incr (ip_connection_counts s) ip \<rparr>"

text \<open>
  The body of the \<open>try\<close> block: the state it leaves and the exception that ended it, if
  one did.
\<close>

definition handle_client_try :: "conn \<Rightarrow> server \<Rightarrow> server \<times> exn option" where
  "handle_client_try c s =
     (case settimeout c (connection_timeout (config s)) of
        Some e \<Rightarrow> (s, Some e)
      | None \<Rightarrow>
         (case (if tcp_keepalive (config s) then setsockopt_raises c else None) of
            Some e \<Rightarrow> (s, Some e)
          | None \<Rightarrow>
             (let ip = client_ip c;
                  s1 = update_statistics ip s;
                  (d0, s2) = ip_delays_get s1 ip;
                  current_delay = min d0 (max_delay (config s2));
                  s3 = emit (Log INFO (ConnectionFrom ip (client_port c)
                         (count_get (ip_connection_counts s2) ip) current_delay)) s2;
                  s4 = (if current_delay > 0 then emit (Sleep current_delay) s3 else s3)
              in (case send_ssh_banner c s4 of
                    (s5, Some e) \<Rightarrow> (s5, Some e)
                  | (s5, None) \<Rightarrow> (monitor_connection c s5, None)))))"

text \<open>The three \<open>except\<close> clauses, in their order; the last one catches every exception.\<close>

definition handle_client_except :: "string \<Rightarrow> exn \<Rightarrow> server \<Rightarrow> server" where
  "handle_client_except ip e s =
     (if e = SocketTimeout then emit (Log INFO (ConnectionTimedOut ip)) s
      else if e = ConnectionResetError then emit (Log INFO (ConnectionReset ip)) s
      else emit (Log ERROR (ErrorHandlingClient ip e)) s)"

text \<open>
  The \<open>finally\<close> block. \<open>close\<close> is called in every case; an exception it raises is
  discarded by the bare \<open>except\<close>.
\<close>

definition record_connection_end :: "string \<Rightarrow> server \<Rightarrow> server" where
  "record_connection_end ip s =
     (let (d, s1) = ip_delays_get s ip
      in s1\<lparr>ip_delays := (ip_delays s1)
              (ip \<mapsto> min (d + delay_increment (config s1)) (max_delay (config s1)))\<rparr>)"

definition close_client :: "conn \<Rightarrow> server \<Rightarrow> server \<times> exn option" where
  "close_client c s =
     (emit (CloseClient (client_ip c)) s, if close_raises c then Some OSError else None)"

definition handle_client_finally :: "conn \<Rightarrow> server \<Rightarrow> server" where
  "handle_client_finally c s =
     (let s1 = record_connection_end (client_ip c) s;
          s2 = fst (close_client c s1);
          s3 = s2\<lparr>stats := (stats s2)
                 \<lparr>active_connections := active_connections (stats s2) - 1\<rparr>\<rparr>
      in emit (Log INFO (ConnectionClosed (client_ip c))) s3)"

definition handle_client :: "conn \<Rightarrow> server \<Rightarrow> server" where
  "handle_client c s =
     (let (s1, raised) = handle_client_try c s;
          s2 = (case raised of
                  None \<Rightarrow> s1
                | Some e \<Rightarrow> handle_client_except (client_ip c) e s1)
      in handle_client_finally c s2)"

text \<open>
  Sessions that do not overlap: each handler runs to its end before the next connection is
  accepted.
\<close>

fun sequential_sessions :: "conn list \<Rightarrow> server \<Rightarrow> server" where
  "sequential_sessions [] s = s"
| "sequential_sessions (c # cs) s = sequential_sessions cs (handle_client c s)"

section \<open>Listener, shutdown and the entry point\<close>

definition start_http_stats_server :: "server \<Rightarrow> server" where
  "start_http_stats_server s =
     (if enable_http_stats (config s)
      then emit (Log INFO (StartingHttpStats (http_stats_port (config s))))
             (emit (StartHttpServer (http_stats_port (config s)))
                (s\<lparr>http_server_thread := True\<rparr>))
      else s)"

text \<open>
  \<open>shutdown\<close> returns at once when the server is not running. The wait for the handler
  threads (at most ten seconds) changes nothing that is modelled.
\<close>

definition shutdown :: "server \<Rightarrow> server" where
  "shutdown s =
     (if \<not> running s then s
      else
        (let s1 = emit (Log INFO ShuttingDown) s;
             s2 = emit CloseServerSocket (s1\<lparr>running := False\<rparr>);
             s3 = (if http_server_thread s2 then emit StopHttpServer s2 else s2);
             s4 = emit (Log INFO (FinalStatistics (total_connections (stats s3)))) s3
         in emit (Log INFO ShutdownComplete) s4))"

definition signal_handler :: "server \<Rightarrow> server" where
  "signal_handler s = shutdown (emit (Log INFO ReceivedSignal) s)"

text \<open>
  What the listening socket does is given from outside: whether creating, binding or
  listening raises, and what each blocking \<open>accept\<close> ends with: a connection, an
  exception, or SIGINT/SIGTERM arriving while it blocks. The handler thread of an
  accepted connection is run to its end before the next \<open>accept\<close>.
\<close>

datatype accept_event =
    Accepted conn
  | AcceptRaises exn
  | SignalReceived

record listener =
  bind_raises :: "exn option"
  accept_script :: "accept_event list"

text \<open>
  The \<open>while self.running\<close> loop. The result is the state when the loop is left and the
  exception that left it for the outer \<open>except\<close> clause, if any; it is \<open>None\<close> when
  the script ends with the server still blocked in \<open>accept\<close>. After a signal the handler
  has closed the listening socket, so the interrupted \<open>accept\<close> raises a socket error
  with the running flag cleared: nothing is logged and the loop is left.
\<close>

fun accept_loop :: "accept_event list \<Rightarrow> server \<Rightarrow> (server \<times> exn option) option" where
  "accept_loop [] s = (if \<not> running s then Some (s, None) else None)"
| "accept_loop (ev # evs) s =
     (if \<not> running s then Some (s, None)
      else
        (case ev of
           Accepted c \<Rightarrow> accept_loop evs (handle_client c s)
         | AcceptRaises e \<Rightarrow>
             (if is_socket_error e
              then Some (if running s then emit (Log ERROR (SocketErrorMsg e)) s else s, None)
              else Some (s, Some e))
         | SignalReceived \<Rightarrow> Some (signal_handler s, None)))"

text \<open>
  \<open>start\<close>: every exception of the \<open>try\<close> block is caught and logged, and the
  \<open>finally\<close> clause calls \<open>shutdown\<close>; the method returns normally.
\<close>

definition start :: "listener \<Rightarrow> server \<Rightarrow> server option" where
  "start l s =
     (case bind_raises l of
        Some e \<Rightarrow> Some (shutdown (emit (Log ERROR (FailedToStartServer e)) s))
      | None \<Rightarrow>
         (let s1 = emit (Log INFO (ListeningOn (port (config s)))) (s\<lparr>running := True\<rparr>);
              s2 = (if enable_http_stats (config s1) then start_http_stats_server s1 else s1)
          in (case accept_loop (accept_script l) s2 of
                None \<Rightarrow> None
              | Some (s3, None) \<Rightarrow> Some (shutdown s3)
              | Some (s3, Some e) \<Rightarrow>
                  Some (shutdown (emit (Log ERROR (FailedToStartServer e)) s3)))))"

subsection \<open>load_config\<close>

text \<open>
  An option of the file, with what the accessors of the section make of it: \<open>text_of\<close> is
  the interpolated text (\<open>None\<close> when interpolation raises), \<open>int_of\<close>, \<open>float_of\<close>
  and \<open>bool_of\<close> are the results of \<open>int\<close>, \<open>float\<close> and the parser's boolean
  conversion on that text (\<open>None\<close> when they raise ValueError).
\<close>

record raw_value =
  text_of :: "string option"
  int_of :: "int option"
  float_of :: "real option"
  bool_of :: "bool option"

type_synonym ini_section = "string \<rightharpoonup> raw_value"

text \<open>
  The file as \<open>ConfigParser.read\<close> meets it. A file that cannot be opened is skipped
  without an exception and leaves the parser empty; a file that cannot be parsed (or
  decoded) raises.
\<close>

datatype config_file =
    Unreadable
  | Malformed exn
  | Parsed "string \<rightharpoonup> ini_section"

definition config_parser_read :: "config_file \<Rightarrow> exn + (string \<rightharpoonup> ini_section)" where
  "config_parser_read f =
     (case f of
        Unreadable \<Rightarrow> Inr Map.empty
      | Malformed e \<Rightarrow> Inl e
      | Parsed sections \<Rightarrow> Inr sections)"

definition get_text :: "ini_section \<Rightarrow> string \<Rightarrow> string \<Rightarrow> exn + string" where
  "get_text sec opt fallback =
     (case sec opt of
        None \<Rightarrow> Inr fallback
      | Some v \<Rightarrow> (case text_of v of None \<Rightarrow> Inl OtherException | Some x \<Rightarrow> Inr x))"

definition get_conv ::
  "(raw_value \<Rightarrow> 'a option) \<Rightarrow> ini_section \<Rightarrow> string \<Rightarrow> 'a \<Rightarrow> exn + 'a" where
  "get_conv conv sec opt fallback =
     (case sec opt of
        None \<Rightarrow> Inr fallback
      | Some v \<Rightarrow>
         (case text_of v of
            None \<Rightarrow> Inl OtherException
          | Some _ \<Rightarrow> (case conv v of None \<Rightarrow> Inl ValueError | Some x \<Rightarrow> Inr x)))"

definition getint :: "ini_section \<Rightarrow> string \<Rightarrow> int \<Rightarrow> exn + int" where
  "getint = get_conv int_of"

definition getfloat :: "ini_section \<Rightarrow> string \<Rightarrow> real \<Rightarrow> exn + real" where
  "getfloat = get_conv float_of"

definition getboolean :: "ini_section \<Rightarrow> string \<Rightarrow> bool \<Rightarrow> exn + bool" where
  "getboolean = get_conv bool_of"

text \<open>
  One assignment \<open>self.config[k] = section.getX(k, self.config[k])\<close>: the dictionary
  changes only when the right-hand side did not raise.
\<close>

definition assign :: "exn + 'a \<Rightarrow> ('a \<Rightarrow> config) \<Rightarrow> exn + config" where
  "assign r store = (case r of Inl e \<Rightarrow> Inl e | Inr v \<Rightarrow> Inr (store v))"

definition assignments :: "(ini_section \<Rightarrow> config \<Rightarrow> exn + config) list" where
  "assignments =
     [\<lambda>sec c. assign (getint sec ''port'' (port c)) (\<lambda>v. c\<lparr>port := v\<rparr>),
      \<lambda>sec c. assign (getint sec ''max_connections'' (max_connections c))
                 (\<lambda>v. c\<lparr>max_connections := v\<rparr>),
      \<lambda>sec c. assign (get_text sec ''ssh_banner'' (ssh_banner c)) (\<lambda>v. c\<lparr>ssh_banner := v\<rparr>),
      \<lambda>sec c. assign (getfloat sec ''banner_delay'' (banner_delay c))
                 (\<lambda>v. c\<lparr>banner_delay := v\<rparr>),
      \<lambda>sec c. assign (getfloat sec ''initial_delay'' (initial_delay c))
                 (\<lambda>v. c\<lparr>initial_delay := v\<rparr>),
      \<lambda>sec c. assign (getfloat sec ''delay_increment'' (delay_increment c))
                 (\<lambda>v. c\<lparr>delay_increment := v\<rparr>),
      \<lambda>sec c. assign (getfloat sec ''max_delay'' (max_delay c)) (\<lambda>v. c\<lparr>max_delay := v\<rparr>),
      \<lambda>sec c. assign (get_text sec ''log_file'' (log_file c)) (\<lambda>v. c\<lparr>log_file := v\<rparr>),
      \<lambda>sec c. assign (get_text sec ''log_level'' (log_level c)) (\<lambda>v. c\<lparr>log_level := v\<rparr>),
      \<lambda>sec c. assign (getint sec ''max_log_size'' (max_log_size c))
                 (\<lambda>v. c\<lparr>max_log_size := v\<rparr>),
      \<lambda>sec c. assign (getint sec ''log_backup_count'' (log_backup_count c))
                 (\<lambda>v. c\<lparr>log_backup_count := v\<rparr>),
      \<lambda>sec c. assign (getint sec ''max_input_length'' (max_input_length c))
                 (\<lambda>v. c\<lparr>max_input_length := v\<rparr>),
      \<lambda>sec c. assign (getint sec ''connection_timeout'' (connection_timeout c))
                 (\<lambda>v. c\<lparr>connection_timeout := v\<rparr>),
      \<lambda>sec c. assign (getboolean sec ''enable_http_stats'' (enable_http_stats c))
                 (\<lambda>v. c\<lparr>enable_http_stats := v\<rparr>),
      \<lambda>sec c. assign (getint sec ''http_stats_port'' (http_stats_port c))
                 (\<lambda>v. c\<lparr>http_stats_port := v\<rparr>),
      \<lambda>sec c. assign (getboolean sec ''tcp_keepalive'' (tcp_keepalive c))
                 (\<lambda>v. c\<lparr>tcp_keepalive := v\<rparr>)]"

text \<open>
  The assignments run in order; the first one that raises ends the block, and what was
  stored before it stays stored.
\<close>

fun run_assignments ::
  "(ini_section \<Rightarrow> config \<Rightarrow> exn + config) list \<Rightarrow> ini_section \<Rightarrow> config \<Rightarrow> config \<times> exn option" where
  "run_assignments [] sec c = (c, None)"
| "run_assignments (f # fs) sec c =
     (case f sec c of
        Inl e \<Rightarrow> (c, Some e)
      | Inr c' \<Rightarrow> run_assignments fs sec c')"

text \<open>
  \<open>load_config\<close>: the configuration it leaves and the lines it prints.
\<close>

definition load_config :: "string \<Rightarrow> config_file \<Rightarrow> config \<Rightarrow> config \<times> effect list" where
  "load_config name f c =
     (let failed = (\<lambda>e. [Print (CouldNotLoadConfiguration name e),
                          Print UsingDefaultConfiguration])
      in (case config_parser_read f of
            Inl e \<Rightarrow> (c, failed e)
          | Inr sections \<Rightarrow>
             (case sections ''honeypot'' of
                None \<Rightarrow> (c, [Print (ConfigurationLoaded name)])
              | Some sec \<Rightarrow>
                 (case run_assignments assignments sec c of
                    (c', None) \<Rightarrow> (c', [Print (ConfigurationLoaded name)])
                  | (c', Some e) \<Rightarrow> (c', failed e)))))"

subsection \<open>main\<close>

text \<open>
  The command line and what happens while the object is constructed: the optional
  configuration file (its path and what the parser meets there), the optional port, and
  whether the rest of \<open>__init__\<close> (logging, signal handlers) completes, raises, or is
  interrupted from the keyboard before the signal handlers are installed.
\<close>

datatype init_outcome =
    InitCompletes
  | InitRaises exn
  | InitInterrupted

record invocation =
  config_arg :: "(string \<times> config_file) option"
  port_arg :: "int option"
  init_outcome :: init_outcome
  now :: datetime
  listener :: listener

text \<open>
  \<open>main\<close>: the exit status of the process and everything it did, or \<open>None\<close> when the
  server is still blocked in \<open>accept\<close> at the end of the script. A return from \<open>main\<close>
  ends the process with status 0; \<open>sys.exit(1)\<close> ends it with status 1. Empty paths and
  port 0 count as not given.
\<close>

definition main :: "invocation \<Rightarrow> (int \<times> effect list) option" where
  "main a =
     (let (cfg, printed) =
            (case config_arg a of
               None \<Rightarrow> (default_config, [])
             | Some (name, f) \<Rightarrow>
                 (if name = [] then (default_config, []) else load_config name f default_config))
      in (case init_outcome a of
            InitInterrupted \<Rightarrow> Some (0, printed @ [Print ShutdownRequestedByUser])
          | InitRaises e \<Rightarrow> Some (1, printed @ [Print (FatalError e)])
          | InitCompletes \<Rightarrow>
             (let s = init_server cfg (now a);
                  s1 = s\<lparr>effects := printed @ effects s\<rparr>;
                  s2 = (case port_arg a of
                          None \<Rightarrow> s1
                        | Some p \<Rightarrow> (if p = 0 then s1 else s1\<lparr>config := (config s1)\<lparr>port := p\<rparr>\<rparr>))
              in (case start (listener a) s2 of
                    None \<Rightarrow> None
                  | Some s3 \<Rightarrow> Some (0, effects s3)))))"

section \<open>The statistics endpoint\<close>

subsection \<open>Text of numbers, timestamps and JSON\<close>

fun digits :: "nat \<Rightarrow> string" where
  "digits n =
     (if n < 10 then [''0123456789'' ! n]
      else digits (n div 10) @ [''0123456789'' ! (n mod 10)])"

definition str_int :: "int \<Rightarrow> string" where
  "str_int n = (if n < 0 then CHR ''-'' # digits (nat (- n)) else digits (nat n))"

text \<open>\<open>'%0wd'\<close>: decimal, padded with zeros on the left to at least \<open>w\<close> characters.\<close>

definition zero_pad :: "nat \<Rightarrow> nat \<Rightarrow> string" where
  "zero_pad w n = replicate (w - length (digits n)) (CHR ''0'') @ digits n"

text \<open>
  \<open>datetime.isoformat()\<close> of a datetime without time zone: the fraction is left out when
  the microseconds are zero.
\<close>

definition isoformat :: "datetime \<Rightarrow> string" where
  "isoformat d =
     zero_pad 4 (year d) @ ''-'' @ zero_pad 2 (month d) @ ''-'' @ zero_pad 2 (day d) @ ''T'' @
     zero_pad 2 (hour d) @ '':'' @ zero_pad 2 (minute d) @ '':'' @ zero_pad 2 (second d) @
     (if microsecond d = 0 then [] else ''.'' @ zero_pad 6 (microsecond d))"

text \<open>The values \<open>json.dumps\<close> is given here: integers, strings and dictionaries.\<close>

datatype json =
    JInt int
  | JStr string
  | JObject "(string \<times> json) list"

text \<open>
  String literals as \<open>json.dumps\<close> writes them (\<open>ensure_ascii\<close> is on): the quote and
  the backslash are escaped, the printable ASCII characters stand for themselves, and
  everything else is written as an escape. A character is read as the code point of its
  number.
\<close>

definition hex4 :: "nat \<Rightarrow> string" where
  "hex4 n =
     [''0123456789abcdef'' ! (n div 4096 mod 16), ''0123456789abcdef'' ! (n div 256 mod 16),
      ''0123456789abcdef'' ! (n div 16 mod 16), ''0123456789abcdef'' ! (n mod 16)]"

definition json_escape :: "char \<Rightarrow> string" where
  "json_escape c =
     (if c = CHR 0x22 then [CHR 0x5C, CHR 0x22]
      else if c = CHR 0x5C then [CHR 0x5C, CHR 0x5C]
      else if 32 \<le> (of_char c :: nat) \<and> (of_char c :: nat) \<le> 126 then [c]
      else if c = CHR 0x08 then [CHR 0x5C, CHR ''b'']
      else if c = CHR 0x0C then [CHR 0x5C, CHR ''f'']
      else if c = CHR 0x0A then [CHR 0x5C, CHR ''n'']
      else if c = CHR 0x0D then [CHR 0x5C, CHR ''r'']
      else if c = CHR 0x09 then [CHR 0x5C, CHR ''t'']
      else [CHR 0x5C, CHR ''u''] @ hex4 (of_char c))"

definition json_string :: "string \<Rightarrow> string" where
  "json_string s = [CHR 0x22] @ concat (map json_escape s) @ [CHR 0x22]"

definition newline_indent :: "nat \<Rightarrow> string" where
  "newline_indent lvl = CHR 0x0A # replicate (4 * lvl) (CHR '' '')"

fun join :: "string \<Rightarrow> string list \<Rightarrow> string" where
  "join sep [] = []"
| "join sep [x] = x"
| "join sep (x # y # ys) = x @ sep @ join sep (y # ys)"

text \<open>
  \<open>json.dumps(v, indent=4)\<close>; \<open>lvl\<close> is the nesting depth of the value being written.
\<close>

fun dumps :: "nat \<Rightarrow> json \<Rightarrow> string"
  and dumps_items :: "nat \<Rightarrow> (string \<times> json) list \<Rightarrow> string list" where
  "dumps lvl (JInt n) = str_int n"
| "dumps lvl (JStr s) = json_string s"
| "dumps lvl (JObject []) = ''{}''"
| "dumps lvl (JObject (kv # kvs)) =
     ''{'' @ newline_indent (Suc lvl) @
     join ('','' @ newline_indent (Suc lvl)) (dumps_items (Suc lvl) (kv # kvs)) @
     newline_indent lvl @ ''}''"
| "dumps_items lvl [] = []"
| "dumps_items lvl ((k, v) # kvs) =
     (json_string k @ '': '' @ dumps lvl v) # dumps_items lvl kvs"

subsection \<open>StatsHandler.do_GET\<close>

text \<open>
  The copy of the \<open>stats\<close> dictionary that is serialised: its four keys in the order of
  their creation, \<open>start_time\<close> replaced by its \<open>isoformat\<close> and the Counter by a plain
  dictionary.
\<close>

definition current_stats :: "stats \<Rightarrow> json" where
  "current_stats st =
     JObject
       [(''total_connections'', JInt (total_connections st)),
        (''active_connections'', JInt (active_connections st)),
        (''connections_per_ip'', JObject (map (\<lambda>(ip, n). (ip, JInt n)) (connections_per_ip st))),
        (''start_time'', JStr (isoformat (start_time st)))]"

text \<open>
  The response as the handler writes it: the status line, the headers it adds itself and
  the body.
\<close>

record response =
  status :: nat
  headers :: "(string \<times> string) list"
  body :: bytes

datatype http_log = StatsRequest string | NotFoundRequest string string

definition do_GET :: "stats \<Rightarrow> string \<Rightarrow> string \<Rightarrow> response \<times> level \<times> http_log" where
  "do_GET stats_ref client path =
     (if path = ''/stats''
      then (\<lparr> status = 200,
               headers = [(''Content-type'', ''application/json'')],
               body = dumps 0 (current_stats stats_ref) \<rparr>,
            INFO, StatsRequest client)
      else (\<lparr> status = 404,
               headers = [(''Content-type'', ''text/html'')],
               body = ''<h1>404 Not Found</h1>'' \<rparr>,
            WARNING, NotFoundRequest client path))"

section \<open>Notions used in the statements\<close>

text \<open>
  The delay on record for an address: the stored value, or the default that a first read
  would store.
\<close>

definition stored_delay :: "server \<Rightarrow> string \<Rightarrow> real" where
  "stored_delay s ip = fst (ip_delays_get s ip)"

text \<open>
  The first two statements of the \<open>try\<close> block, \<open>settimeout\<close> and (when keepalive is
  configured) \<open>setsockopt\<close>, both return.
\<close>

definition setup_succeeds :: "conn \<Rightarrow> server \<Rightarrow> bool" where
  "setup_succeeds c s =
     (settimeout c (connection_timeout (config s)) = None \<and>
      (if tcp_keepalive (config s) then setsockopt_raises c else None) = None)"


text \<open>\<open>s'\<close> is \<open>s\<close> with more effects appended and nothing else changed.\<close>

definition extends :: "server \<Rightarrow> server \<Rightarrow> bool" where
  "extends s s' = (\<exists>es. s' = s\<lparr>effects := effects s @ es\<rparr>)"


text \<open>
  Stations of a successful handler: the state after the statistics update and the read of
  \<open>ip_delays\<close>, and the state after the connection was logged and the delay slept.
\<close>

definition after_lookup :: "conn \<Rightarrow> server \<Rightarrow> server" where
  "after_lookup c s = snd (ip_delays_get (update_statistics (client_ip c) s) (client_ip c))"

definition delayed :: "conn \<Rightarrow> server \<Rightarrow> server" where
  "delayed c s =
     (let ip = client_ip c;
          s2 = after_lookup c s;
          d = min (stored_delay s ip) (max_delay (config s));
          s3 = emit (Log INFO (ConnectionFrom ip (client_port c)
                 (count_get (ip_connection_counts s2) ip) d)) s2
      in if d > 0 then emit (Sleep d) s3 else s3)"

text \<open>
  The state in which the \<open>finally\<close> block is entered: after the \<open>try\<close> block and, when
  it raised, the matching \<open>except\<close> clause.
\<close>

definition before_finally :: "conn \<Rightarrow> server \<Rightarrow> server" where
  "before_finally c s =
     (case snd (handle_client_try c s) of
        None \<Rightarrow> fst (handle_client_try c s)
      | Some e \<Rightarrow> handle_client_except (client_ip c) e (fst (handle_client_try c s)))"

definition delays_in_range :: "server \<Rightarrow> bool" where
  "delays_in_range s =
     (\<forall>ip d. ip_delays s ip = Some d \<longrightarrow> 0 \<le> d \<and> d \<le> max_delay (config s))"

subsection \<open>Concrete inputs\<close>

definition t0 :: datetime where
  "t0 = \<lparr> year = 2024, month = 1, day = 2, hour = 3, minute = 4, second = 5,
          microsecond = 0 \<rparr>"

text \<open>The server once \<open>start\<close> has set the running flag.\<close>

definition listening :: "config \<Rightarrow> datetime \<Rightarrow> server" where
  "listening cfg t = (init_server cfg t)\<lparr>running := True\<rparr>"

text \<open>
  A client whose socket never fails and that closes the connection without sending
  anything.
\<close>

definition quiet_conn :: "string \<Rightarrow> conn" where
  "quiet_conn ip =
     \<lparr> client_ip = ip, client_port = 40000, settimeout_raises = None,
       setsockopt_raises = None, send_error_at = None, recv_script = [RecvData []],
       close_raises = False \<rparr>"



text \<open>A client on whose socket \<open>setsockopt\<close> raises.\<close>

definition refusing_conn :: "string \<Rightarrow> conn" where
  "refusing_conn ip = (quiet_conn ip)\<lparr>setsockopt_raises := Some OSError\<rparr>"

definition negative_timeout_config :: config where
  "negative_timeout_config = default_config\<lparr>connection_timeout := - 1\<rparr>"

definition large_initial_config :: config where
  "large_initial_config = default_config\<lparr>initial_delay := 10, max_delay := 5\<rparr>"







text \<open>
  An invocation without arguments for which \<open>bind\<close> raises (the port is taken), and one
  where SIGINT or SIGTERM arrives while the server waits for its first connection.
\<close>

definition port_in_use :: invocation where
  "port_in_use =
     \<lparr> config_arg = None, port_arg = None, init_outcome = InitCompletes, now = t0,
       listener = \<lparr> bind_raises = Some OSError,
                    accept_script = [Accepted (quiet_conn ''10.0.0.5'')] \<rparr> \<rparr>"

definition interrupted_by_signal :: invocation where
  "interrupted_by_signal =
     \<lparr> config_arg = None, port_arg = None, init_outcome = InitCompletes, now = t0,
       listener = \<lparr> bind_raises = None, accept_script = [SignalReceived] \<rparr> \<rparr>"

text \<open>
  Option values: a decimal integer, and a word that is neither a number nor a boolean.
  \<open>half_valid_file\<close> is the file
  \<^verbatim>\<open>[honeypot]\<close>, \<^verbatim>\<open>port = 3000\<close>, \<^verbatim>\<open>max_connections = abc\<close>.
\<close>

definition raw_int :: "string \<Rightarrow> int \<Rightarrow> raw_value" where
  "raw_int txt n =
     \<lparr> text_of = Some txt, int_of = Some n, float_of = Some (real_of_int n), bool_of = None \<rparr>"

definition raw_word :: "string \<Rightarrow> raw_value" where
  "raw_word txt = \<lparr> text_of = Some txt, int_of = None, float_of = None, bool_of = None \<rparr>"

definition half_valid_file :: config_file where
  "half_valid_file =
     Parsed [''honeypot'' \<mapsto>
       [''port'' \<mapsto> raw_int ''3000'' 3000, ''max_connections'' \<mapsto> raw_word ''abc'']]"

text \<open>
  The two shapes \<open>datetime.isoformat\<close> produces, both ISO 8601 timestamps: in a
  pattern \<open>d\<close> stands for a decimal digit and every other character for itself.
\<close>

definition is_digit :: "char \<Rightarrow> bool" where
  "is_digit c = (c \<in> set ''0123456789'')"

fun matches :: "string \<Rightarrow> string \<Rightarrow> bool" where
  "matches [] [] = True"
| "matches (p # ps) (c # cs) = ((if p = CHR ''d'' then is_digit c else c = p) \<and> matches ps cs)"
| "matches _ _ = False"

definition iso8601 :: "string \<Rightarrow> bool" where
  "iso8601 s =
     (matches ''dddd-dd-ddTdd:dd:dd'' s \<or> matches ''dddd-dd-ddTdd:dd:dd.dddddd'' s)"

text \<open>The ranges of the fields of a Python \<open>datetime\<close>.\<close>

definition valid_datetime :: "datetime \<Rightarrow> bool" where
  "valid_datetime d =
     (1 \<le> year d \<and> year d \<le> 9999 \<and> 1 \<le> month d \<and> month d \<le> 12 \<and>
      1 \<le> day d \<and> day d \<le> 31 \<and> hour d \<le> 23 \<and> minute d \<le> 59 \<and>
      second d \<le> 59 \<and> microsecond d \<le> 999999)"

text \<open>The value under a key of a JSON object, and whether a text contains another.\<close>

fun json_get :: "json \<Rightarrow> string \<Rightarrow> json option" where
  "json_get (JObject kvs) k = map_of kvs k"
| "json_get _ k = None"

fun starts_with :: "string \<Rightarrow> string \<Rightarrow> bool" where
  "starts_with s [] = True"
| "starts_with [] (p # ps) = False"
| "starts_with (c # cs) (p # ps) = (c = p \<and> starts_with cs ps)"

fun contains :: "string \<Rightarrow> string \<Rightarrow> bool" where
  "contains [] p = (p = [])"
| "contains (c # cs) p = (starts_with (c # cs) p \<or> contains cs p)"

text \<open>
  The statistics after one session from 10.0.0.5 and one from 10.0.0.6, and the text
  \<open>json.dumps\<close> makes of them.
\<close>

definition two_sources :: stats where
  "two_sources =
     stats (sequential_sessions [quiet_conn ''10.0.0.5'', quiet_conn ''10.0.0.6'']
              (listening default_config t0))"

definition quoted :: "string \<Rightarrow> string" where
  "quoted s = [CHR 0x22] @ s @ [CHR 0x22]"

definition two_sources_body :: string where
  "two_sources_body =
     join [CHR 0x0A]
       [''{'',
        ''    '' @ quoted ''total_connections'' @ '': 2,'',
        ''    '' @ quoted ''active_connections'' @ '': 0,'',
        ''    '' @ quoted ''connections_per_ip'' @ '': {'',
        ''        '' @ quoted ''10.0.0.5'' @ '': 1,'',
        ''        '' @ quoted ''10.0.0.6'' @ '': 1'',
        ''    },'',
        ''    '' @ quoted ''start_time'' @ '': '' @ quoted ''2024-01-02T03:04:05'',
        ''}'']"

section \<open>Properties\<close>

subsection \<open>Auxiliary facts\<close>

lemma emit_simps [simp]:
  "config (emit e s) = config s"
  "running (emit e s) = running s"
  "ip_delays (emit e s) = ip_delays s"
  "ip_connection_counts (emit e s) = ip_connection_counts s"
  "stats (emit e s) = stats s"
  "http_server_thread (emit e s) = http_server_thread s"
  "effects (emit e s) = effects s @ [e]"
  by (simp_all add: emit_def)

lemma extends_refl: "extends s s"
  unfolding extends_def by (rule exI[of _ "[]"]) simp

lemma extends_emit: "extends s (emit e s)"
  unfolding extends_def emit_def by blast

lemma extends_trans: "extends s s' \<Longrightarrow> extends s' s'' \<Longrightarrow> extends s s''"
  unfolding extends_def
  apply (elim exE)
  subgoal for es es'
    by (rule exI[of _ "es @ es'"]) simp
  done

lemma extends_fields:
  assumes "extends s s'"
  shows "config s' = config s" "running s' = running s" "ip_delays s' = ip_delays s"
    "ip_connection_counts s' = ip_connection_counts s" "stats s' = stats s"
    "http_server_thread s' = http_server_thread s"
    "\<exists>es. effects s' = effects s @ es"
  using assms unfolding extends_def by auto

lemma send_chars_extends: "extends s (fst (send_chars c i cs s))"
proof (induction cs arbitrary: i s)
  case Nil
  show ?case by (simp add: extends_refl)
next
  case (Cons ch cs)
  show ?case
  proof (cases "send_error_at c = Some i")
    case True
    then show ?thesis by (simp add: extends_refl)
  next
    case False
    let ?s1 = "emit (Send (client_ip c) [ch]) s"
    show ?thesis
    proof (cases "banner_delay (config s) < 0")
      case True
      with False show ?thesis by (simp add: py_sleep_def Let_def extends_emit)
    next
      case neg: False
      have "extends ?s1 (emit (Sleep (banner_delay (config s))) ?s1)" by (rule extends_emit)
      with extends_emit have "extends s (emit (Sleep (banner_delay (config s))) ?s1)"
        by (rule extends_trans)
      from this Cons.IH have "extends s (fst (send_chars c (Suc i) cs (emit (Sleep (banner_delay (config s))) ?s1)))"
        by (rule extends_trans)
      with False neg show ?thesis by (simp add: py_sleep_def Let_def)
    qed
  qed
qed

lemma monitor_loop_extends: "extends s (fst (monitor_loop ip evs buffer s))"
proof (induction evs arbitrary: buffer s)
  case Nil
  show ?case by (simp add: extends_refl)
next
  case (Cons ev evs)
  show ?case
  proof (cases ev)
    case (RecvData data)
    show ?thesis
    proof (cases "running s \<and> data \<noteq> []")
      case True
      let ?s1 = "emit (Log INFO (DataFrom ip (log_data_of (max_input_length (config s)) (buffer @ data)))) s"
      have "extends s ?s1" by (rule extends_emit)
      from this Cons.IH[of ?s1] have "extends s (fst (monitor_loop ip evs (trim_buffer (max_input_length (config s)) (buffer @ data)) ?s1))"
        by (rule extends_trans)
      with True RecvData show ?thesis by (simp add: Let_def case_prod_beta)
    next
      case False
      with RecvData show ?thesis by (auto simp add: extends_refl)
    qed
  next
    case RecvTimeout
    with Cons.IH[of s buffer] show ?thesis by (simp add: extends_refl case_prod_beta)
  next
    case RecvError
    then show ?thesis by (simp add: extends_refl)
  qed
qed

lemma stored_delay_alt:
  "stored_delay s ip = (case ip_delays s ip of None \<Rightarrow> initial_delay (config s) | Some d \<Rightarrow> d)"
  by (simp add: stored_delay_def ip_delays_get_def split: option.splits)

lemma extends_stored: "extends s s' \<Longrightarrow> stored_delay s' ip = stored_delay s ip"
  by (simp add: stored_delay_alt extends_fields split: option.splits)

lemma after_lookup_fields:
  "config (after_lookup c s) = config s"
  "running (after_lookup c s) = running s"
  "stats (after_lookup c s) = stats (update_statistics (client_ip c) s)"
  "effects (after_lookup c s) = effects s"
  "ip_connection_counts (after_lookup c s) = count_incr (ip_connection_counts s) (client_ip c)"
  "ip_delays (after_lookup c s) = (ip_delays s)(client_ip c \<mapsto> stored_delay s (client_ip c))"
  by (auto simp add: after_lookup_def ip_delays_get_def update_statistics_def stored_delay_def
      split: option.splits)

lemma after_lookup_stored: "stored_delay (after_lookup c s) ip = stored_delay s ip"
  by (simp add: stored_delay_alt after_lookup_fields split: option.splits)

lemma try_fails: "\<not> setup_succeeds c s \<Longrightarrow> fst (handle_client_try c s) = s"
  by (auto simp add: setup_succeeds_def handle_client_try_def split: option.splits if_splits)

lemma try_unfold:
  assumes "setup_succeeds c s"
  shows "handle_client_try c s =
           (case snd (send_ssh_banner c (delayed c s)) of
              Some e \<Rightarrow> (fst (send_ssh_banner c (delayed c s)), Some e)
            | None \<Rightarrow> (monitor_connection c (fst (send_ssh_banner c (delayed c s))), None))"
proof -
  have cfg: "config (snd (ip_delays_get (update_statistics (client_ip c) s) (client_ip c))) = config s"
    by (simp add: ip_delays_get_def update_statistics_def split: option.splits)
  have d0: "fst (ip_delays_get (update_statistics (client_ip c) s) (client_ip c)) =
            fst (ip_delays_get s (client_ip c))"
    by (simp add: ip_delays_get_def update_statistics_def split: option.splits)
  from assms have a1: "settimeout c (connection_timeout (config s)) = None"
    and a2: "(if tcp_keepalive (config s) then setsockopt_raises c else None) = None"
    by (simp_all add: setup_succeeds_def)
  show ?thesis
    unfolding handle_client_try_def delayed_def after_lookup_def stored_delay_def Let_def
      case_prod_beta a1 a2 cfg d0 option.case
    by (cases "send_ssh_banner c
          (if 0 < min (fst (ip_delays_get s (client_ip c))) (max_delay (config s))
           then emit (Sleep (min (fst (ip_delays_get s (client_ip c))) (max_delay (config s))))
              (emit (Log INFO (ConnectionFrom (client_ip c) (client_port c)
                 (count_get (ip_connection_counts (snd (ip_delays_get (update_statistics (client_ip c) s) (client_ip c)))) (client_ip c))
                 (min (fst (ip_delays_get s (client_ip c))) (max_delay (config s)))))
                 (snd (ip_delays_get (update_statistics (client_ip c) s) (client_ip c))))
           else emit (Log INFO (ConnectionFrom (client_ip c) (client_port c)
                 (count_get (ip_connection_counts (snd (ip_delays_get (update_statistics (client_ip c) s) (client_ip c)))) (client_ip c))
                 (min (fst (ip_delays_get s (client_ip c))) (max_delay (config s)))))
                 (snd (ip_delays_get (update_statistics (client_ip c) s) (client_ip c))))")
       (auto split: option.splits)
qed

lemma delayed_extends: "extends (after_lookup c s) (delayed c s)"
proof -
  define s2 where "s2 = after_lookup c s"
  define d where "d = min (stored_delay s (client_ip c)) (max_delay (config s))"
  define s3 where "s3 = emit (Log INFO (ConnectionFrom (client_ip c) (client_port c)
                 (count_get (ip_connection_counts s2) (client_ip c)) d)) s2"
  have e3: "extends s2 s3" unfolding s3_def by (rule extends_emit)
  have "extends s3 (if d > 0 then emit (Sleep d) s3 else s3)"
    by (simp add: extends_emit extends_refl)
  with e3 have "extends s2 (if d > 0 then emit (Sleep d) s3 else s3)" by (rule extends_trans)
  moreover have "delayed c s = (if d > 0 then emit (Sleep d) s3 else s3)"
    unfolding delayed_def Let_def s3_def d_def s2_def ..
  ultimately show ?thesis unfolding s2_def by simp
qed

lemma try_succeeds:
  assumes "setup_succeeds c s"
  shows "extends (after_lookup c s) (fst (handle_client_try c s))"
proof -
  define s4 where "s4 = delayed c s"
  define s5 where "s5 = fst (send_ssh_banner c s4)"
  have e4: "extends (after_lookup c s) s4" unfolding s4_def by (rule delayed_extends)
  have "extends s4 s5" unfolding s5_def by (simp add: send_ssh_banner_def send_chars_extends)
  with e4 have e5: "extends (after_lookup c s) s5" by (rule extends_trans)
  have "extends s5 (monitor_connection c s5)"
    by (simp add: monitor_connection_def monitor_loop_extends)
  with e5 have e6: "extends (after_lookup c s) (monitor_connection c s5)" by (rule extends_trans)
  have "fst (handle_client_try c s) = s5 \<or> fst (handle_client_try c s) = monitor_connection c s5"
    unfolding try_unfold[OF assms] s5_def s4_def by (simp split: option.splits)
  with e5 e6 show ?thesis by auto
qed

lemma try_config: "config (fst (handle_client_try c s)) = config s"
  by (cases "setup_succeeds c s")
     (simp_all add: try_fails extends_fields[OF try_succeeds] after_lookup_fields)

lemma try_stored: "stored_delay (fst (handle_client_try c s)) ip = stored_delay s ip"
  by (cases "setup_succeeds c s")
     (simp_all add: try_fails extends_stored[OF try_succeeds] after_lookup_stored)

lemma try_active:
  "active_connections (stats (fst (handle_client_try c s))) =
     active_connections (stats s) + (if setup_succeeds c s then 1 else 0)"
  by (cases "setup_succeeds c s")
     (simp_all add: try_fails extends_fields[OF try_succeeds] after_lookup_fields
        update_statistics_def)

lemma try_ip_delays:
  "ip_delays (fst (handle_client_try c s)) =
     (if setup_succeeds c s then (ip_delays s)(client_ip c \<mapsto> stored_delay s (client_ip c))
      else ip_delays s)"
  by (cases "setup_succeeds c s")
     (simp_all add: try_fails extends_fields[OF try_succeeds] after_lookup_fields)

lemma handle_client_alt: "handle_client c s = handle_client_finally c (before_finally c s)"
  by (simp add: handle_client_def before_finally_def case_prod_beta Let_def)

lemma except_extends: "extends s (handle_client_except ip e s)"
  by (simp add: handle_client_except_def extends_emit)

lemma before_finally_extends: "extends (fst (handle_client_try c s)) (before_finally c s)"
  by (simp add: before_finally_def extends_refl except_extends split: option.splits)

lemma finally_fields:
  "config (handle_client_finally c s) = config s"
  "running (handle_client_finally c s) = running s"
  "ip_delays (handle_client_finally c s) =
     (ip_delays s)(client_ip c \<mapsto>
        min (stored_delay s (client_ip c) + delay_increment (config s)) (max_delay (config s)))"
  "active_connections (stats (handle_client_finally c s)) = active_connections (stats s) - 1"
  "total_connections (stats (handle_client_finally c s)) = total_connections (stats s)"
  "connections_per_ip (stats (handle_client_finally c s)) = connections_per_ip (stats s)"
  "start_time (stats (handle_client_finally c s)) = start_time (stats s)"
  "ip_connection_counts (handle_client_finally c s) = ip_connection_counts s"
  "effects (handle_client_finally c s) =
     effects s @ [CloseClient (client_ip c), Log INFO (ConnectionClosed (client_ip c))]"
  by (auto simp add: handle_client_finally_def record_connection_end_def close_client_def
      ip_delays_get_def stored_delay_def Let_def split: option.splits)

lemma hc_config: "config (handle_client c s) = config s"
  by (simp add: handle_client_alt finally_fields extends_fields[OF before_finally_extends] try_config)

lemma hc_ip_delays:
  "ip_delays (handle_client c s) =
     (ip_delays s)(client_ip c \<mapsto>
        min (stored_delay s (client_ip c) + delay_increment (config s)) (max_delay (config s)))"
  by (simp add: handle_client_alt finally_fields extends_fields[OF before_finally_extends]
      extends_stored[OF before_finally_extends] try_config try_stored try_ip_delays)

lemma hc_stored:
  "stored_delay (handle_client c s) ip =
     (if ip = client_ip c
      then min (stored_delay s ip + delay_increment (config s)) (max_delay (config s))
      else stored_delay s ip)"
  by (simp add: stored_delay_alt hc_ip_delays hc_config split: option.splits)

lemma hc_active:
  "active_connections (stats (handle_client c s)) =
     active_connections (stats s) + (if setup_succeeds c s then 1 else 0) - 1"
  by (simp add: handle_client_alt finally_fields extends_fields[OF before_finally_extends] try_active)

lemma seq_config: "config (sequential_sessions cs s) = config s"
  by (induction cs arbitrary: s) (simp_all add: hc_config)







subsection \<open>The adaptive delay\<close>




lemma quiet_setup:
  "0 \<le> connection_timeout (config s) \<Longrightarrow> setup_succeeds (quiet_conn ip) s"
  by (simp add: setup_succeeds_def settimeout_def quiet_conn_def)

lemma listening_fields:
  "config (listening cfg t) = cfg"
  "ip_delays (listening cfg t) = Map.empty"
  "ip_connection_counts (listening cfg t) = Map.empty"
  "running (listening cfg t) = True"
  "total_connections (stats (listening cfg t)) = 0"
  "active_connections (stats (listening cfg t)) = 0"
  "connections_per_ip (stats (listening cfg t)) = []"
  "start_time (stats (listening cfg t)) = t"
  by (simp_all add: listening_def init_server_def)




subsection \<open>The connection handler\<close>


text \<open>
  Claim C2 at its failing inputs. When the socket setup raises, the counter is not
  incremented, yet the \<open>finally\<close> block decrements it: the first connection leaves it
  at -1. This happens when \<open>setsockopt\<close> raises, and also for every connection when the
  configured timeout is negative, since \<open>settimeout\<close> then raises ValueError.
\<close>

theorem active_connections_negative:
  "active_connections (stats (handle_client (refusing_conn ''10.0.0.5'')
      (listening default_config t0))) = - 1 \<and>
   active_connections (stats (handle_client (quiet_conn ''10.0.0.5'')
      (listening negative_timeout_config t0))) = - 1"
proof -
  have 1: "\<not> setup_succeeds (refusing_conn ''10.0.0.5'') (listening default_config t0)"
    by (simp add: setup_succeeds_def refusing_conn_def quiet_conn_def listening_fields
        default_config_def)
  have 2: "\<not> setup_succeeds (quiet_conn ''10.0.0.5'') (listening negative_timeout_config t0)"
    by (simp add: setup_succeeds_def settimeout_def listening_fields
        negative_timeout_config_def default_config_def)
  show ?thesis by (simp add: hc_active 1 2 listening_fields)
qed

lemma stored_in_range:
  assumes "delays_in_range s" "0 \<le> initial_delay (config s)"
    "initial_delay (config s) \<le> max_delay (config s)"
  shows "0 \<le> stored_delay s ip" "stored_delay s ip \<le> max_delay (config s)"
  using assms by (auto simp add: delays_in_range_def stored_delay_alt split: option.splits)

lemma hc_in_range:
  assumes "delays_in_range s" "0 \<le> initial_delay (config s)"
    "initial_delay (config s) \<le> max_delay (config s)" "0 \<le> delay_increment (config s)"
  shows "delays_in_range (handle_client c s)"
  unfolding delays_in_range_def hc_ip_delays hc_config
proof (intro allI impI)
  fix ip d
  assume a: "((ip_delays s)(client_ip c \<mapsto>
        min (stored_delay s (client_ip c) + delay_increment (config s)) (max_delay (config s)))) ip = Some d"
  show "0 \<le> d \<and> d \<le> max_delay (config s)"
  proof (cases "ip = client_ip c")
    case True
    with a have "d = min (stored_delay s (client_ip c) + delay_increment (config s)) (max_delay (config s))"
      by simp
    with stored_in_range[OF assms(1-3), of "client_ip c"] assms(2-4) show ?thesis by simp
  next
    case False
    with a assms(1) show ?thesis by (simp add: delays_in_range_def)
  qed
qed

lemma try_in_range:
  assumes "delays_in_range s" "0 \<le> initial_delay (config s)"
    "initial_delay (config s) \<le> max_delay (config s)"
  shows "delays_in_range (fst (handle_client_try c s))"
  using assms stored_in_range[OF assms, of "client_ip c"]
  by (auto simp add: delays_in_range_def try_ip_delays try_config)

lemma seq_in_range:
  assumes "delays_in_range s" "0 \<le> initial_delay (config s)"
    "initial_delay (config s) \<le> max_delay (config s)" "0 \<le> delay_increment (config s)"
  shows "delays_in_range (sequential_sessions cs s)"
  using assms
proof (induction cs arbitrary: s)
  case Nil
  then show ?case by simp
next
  case (Cons c cs)
  have "delays_in_range (handle_client c s)" by (rule hc_in_range) (rule Cons.prems)+
  then show ?case using Cons.IH[of "handle_client c s"] Cons.prems by (simp add: hc_config)
qed

text \<open>
  Claim C9, as amended. When \<open>0 \<le> initial_delay \<le> max_delay\<close> and
  \<open>0 \<le> delay_increment\<close>, every delay stored for any address lies in
  \<open>[0, max_delay]\<close> in every state reached by sessions that do not overlap, also in the
  middle of the next session, and the teardown of a session never lowers the delay on
  record for any address.
\<close>

theorem stored_delay_bounded_and_monotone:
  assumes "0 \<le> initial_delay cfg" and "initial_delay cfg \<le> max_delay cfg"
    and "0 \<le> delay_increment cfg"
  shows "delays_in_range (sequential_sessions cs (listening cfg t)) \<and>
         delays_in_range (fst (handle_client_try c (sequential_sessions cs (listening cfg t)))) \<and>
         (\<forall>ip. stored_delay (sequential_sessions cs (listening cfg t)) ip
                \<le> stored_delay (handle_client c (sequential_sessions cs (listening cfg t))) ip)"
proof -
  let ?s = "sequential_sessions cs (listening cfg t)"
  have c: "config ?s = cfg" by (simp add: seq_config listening_fields)
  have "delays_in_range (listening cfg t)" by (simp add: delays_in_range_def listening_fields)
  then have r: "delays_in_range ?s"
    by (rule seq_in_range) (simp_all add: listening_fields assms)
  have t: "delays_in_range (fst (handle_client_try c ?s))"
    by (rule try_in_range[OF r]) (simp_all add: c assms)
  have "stored_delay ?s ip \<le> stored_delay (handle_client c ?s) ip" for ip
    using stored_in_range[OF r, of ip] assms by (auto simp add: hc_stored c)
  with r t show ?thesis by blast
qed

text \<open>The default configuration satisfies the conditions; after one session the stored delay is 3.\<close>

theorem stored_delay_bounded_and_monotone_witness:
  "0 \<le> initial_delay default_config \<and> initial_delay default_config \<le> max_delay default_config \<and>
   0 \<le> delay_increment default_config \<and>
   delays_in_range (sequential_sessions [quiet_conn ''10.0.0.5''] (listening default_config t0)) \<and>
   ip_delays (sequential_sessions [quiet_conn ''10.0.0.5''] (listening default_config t0))
     ''10.0.0.5'' = Some 3 \<and>
   stored_delay (sequential_sessions [quiet_conn ''10.0.0.5''] (listening default_config t0))
     ''10.0.0.5''
   \<le> stored_delay (handle_client (quiet_conn ''10.0.0.5'')
        (sequential_sessions [quiet_conn ''10.0.0.5''] (listening default_config t0))) ''10.0.0.5''"
proof -
  have h: "0 \<le> initial_delay default_config" "initial_delay default_config \<le> max_delay default_config"
    "0 \<le> delay_increment default_config"
    by (simp_all add: default_config_def)
  have v: "ip_delays (sequential_sessions [quiet_conn ''10.0.0.5''] (listening default_config t0))
     ''10.0.0.5'' = Some 3"
    by (simp add: hc_ip_delays quiet_conn_def stored_delay_alt listening_fields default_config_def)
  from stored_delay_bounded_and_monotone[OF h, of "[quiet_conn ''10.0.0.5'']" t0 "quiet_conn ''10.0.0.5''"]
  show ?thesis using h v by blast
qed

text \<open>
  For arbitrary configured values the claim fails: with \<open>initial_delay = 10\<close> and
  \<open>max_delay = 5\<close> the first session stores 10 for its address, above the maximum, and
  its teardown lowers the stored value to 5.
\<close>

theorem stored_delay_bounded_counterexample:
  "ip_delays (fst (handle_client_try (quiet_conn ''10.0.0.5'') (listening large_initial_config t0)))
     ''10.0.0.5'' = Some 10 \<and>
   max_delay (config (fst (handle_client_try (quiet_conn ''10.0.0.5'')
     (listening large_initial_config t0)))) = 5 \<and>
   ip_delays (handle_client (quiet_conn ''10.0.0.5'') (listening large_initial_config t0))
     ''10.0.0.5'' = Some 5"
proof -
  define c where "c = quiet_conn ''10.0.0.5''"
  define s where "s = listening large_initial_config t0"
  have cfg: "initial_delay (config s) = 10" "delay_increment (config s) = 2"
    "max_delay (config s) = 5" "connection_timeout (config s) = 300"
    by (simp_all add: s_def listening_fields large_initial_config_def default_config_def)
  have ip: "client_ip c = ''10.0.0.5''" by (simp add: c_def quiet_conn_def)
  have ok: "setup_succeeds c s" unfolding c_def by (rule quiet_setup) (simp add: cfg)
  have st: "stored_delay s ''10.0.0.5'' = 10"
    using cfg(1) by (simp add: stored_delay_alt s_def listening_fields)
  have "ip_delays (fst (handle_client_try c s)) ''10.0.0.5'' = Some 10"
    by (simp add: try_ip_delays ok ip st)
  moreover have "max_delay (config (fst (handle_client_try c s))) = 5"
    by (simp add: try_config cfg)
  moreover have "ip_delays (handle_client c s) ''10.0.0.5'' = Some 5"
    by (simp add: hc_ip_delays ip st cfg)
  ultimately show ?thesis unfolding c_def s_def by blast
qed

subsection \<open>The monitoring loop\<close>












subsection \<open>The banner\<close>





subsection \<open>Startup, shutdown and configuration\<close>

text \<open>
  Claim C3 at its failing input. When \<open>bind\<close> raises, \<open>start\<close> catches the exception,
  logs it and returns; nothing is accepted, \<open>main\<close> returns normally and the process
  ends with status 0, not with a non-zero status.
\<close>

theorem bind_failure_exits_zero:
  "main port_in_use =
     Some (0, [Log INFO Initialized, Log ERROR (FailedToStartServer OSError)])"
  by (simp add: main_def port_in_use_def start_def shutdown_def init_server_def emit_def)

text \<open>
  The same for every configuration, exception and script: a startup failure logs one
  error, serves no connection and ends with status 0. A graceful shutdown ends with
  status 0 as well.
\<close>

lemma startup_failure_exit_status:
  assumes "init_outcome a = InitCompletes" and "bind_raises (listener a) = Some e"
  shows "\<exists>printed. main a =
           Some (0, printed @ [Log INFO Initialized, Log ERROR (FailedToStartServer e)])"
proof -
  obtain cfg printed where cp:
    "(case config_arg a of
        None \<Rightarrow> (default_config, [])
      | Some (name, f) \<Rightarrow>
          (if name = [] then (default_config, []) else load_config name f default_config)) =
     (cfg, printed)"
    by (cases "(case config_arg a of
        None \<Rightarrow> (default_config, [])
      | Some (name, f) \<Rightarrow>
          (if name = [] then (default_config, []) else load_config name f default_config))")
  have "main a = Some (0, printed @ [Log INFO Initialized, Log ERROR (FailedToStartServer e)])"
    unfolding main_def cp using assms
    by (simp add: start_def shutdown_def init_server_def emit_def Let_def split: option.splits)
  then show ?thesis ..
qed

lemma graceful_shutdown_exit_status:
  "main interrupted_by_signal =
     Some (0, [Log INFO Initialized, Log INFO (ListeningOn 2222), Log INFO ReceivedSignal,
               Log INFO ShuttingDown, CloseServerSocket, Log INFO (FinalStatistics 0),
               Log INFO ShutdownComplete])"
  by (simp add: main_def interrupted_by_signal_def start_def shutdown_def signal_handler_def
      init_server_def emit_def default_config_def Let_def)

text \<open>
  Claim C5 at its failing inputs. A file whose second option does not convert leaves the
  first one applied: the warning and "Using default configuration" are printed, and the
  port is 3000, not the default 2222. A file that cannot be opened leaves the defaults
  but prints no warning; it is reported as loaded.
\<close>

theorem partial_configuration_after_error:
  "load_config ''honeypot.ini'' half_valid_file default_config =
     (default_config\<lparr>port := 3000\<rparr>,
      [Print (CouldNotLoadConfiguration ''honeypot.ini'' ValueError),
       Print UsingDefaultConfiguration]) \<and>
   port (fst (load_config ''honeypot.ini'' half_valid_file default_config)) = 3000 \<and>
   port default_config = 2222 \<and>
   load_config ''missing.ini'' Unreadable default_config =
     (default_config, [Print (ConfigurationLoaded ''missing.ini'')])"
  by (simp add: load_config_def config_parser_read_def half_valid_file_def assignments_def
      assign_def getint_def get_conv_def raw_int_def raw_word_def default_config_def)

text \<open>
  What does hold: a file that the parser rejects leaves the configuration as it was and
  prints the warning; a file that cannot be opened leaves it as it was, too.
\<close>

lemma malformed_file_keeps_configuration:
  "load_config name (Malformed e) c =
     (c, [Print (CouldNotLoadConfiguration name e), Print UsingDefaultConfiguration])"
  by (simp add: load_config_def config_parser_read_def)

lemma unreadable_file_keeps_configuration:
  "load_config name Unreadable c = (c, [Print (ConfigurationLoaded name)])"
  by (simp add: load_config_def config_parser_read_def)

subsection \<open>The statistics endpoint\<close>

lemma digits_are_digits: "\<forall>c \<in> set (digits n). is_digit c"
proof (induction n rule: digits.induct)
  case (1 n)
  have d: "is_digit (''0123456789'' ! k)" if "k < 10" for k
  proof -
    from that have "k \<in> {0, 1, 2, 3, 4, 5, 6, 7, 8, 9}" by auto
    then show ?thesis by (auto simp add: is_digit_def)
  qed
  show ?case
  proof (cases "n < 10")
    case True
    then show ?thesis by (subst digits.simps) (simp add: d del: digits.simps)
  next
    case False
    with 1 have "\<forall>c \<in> set (digits (n div 10)). is_digit c" by simp
    with False show ?thesis by (subst digits.simps) (simp add: d del: digits.simps)
  qed
qed

lemma length_digits: "n < 10 ^ Suc k \<Longrightarrow> length (digits n) \<le> Suc k"
proof (induction k arbitrary: n)
  case 0
  then show ?case by (subst digits.simps) (simp del: digits.simps)
next
  case (Suc k)
  show ?case
  proof (cases "n < 10")
    case True
    then show ?thesis by (subst digits.simps) (simp del: digits.simps)
  next
    case False
    from Suc.prems have "n div 10 < 10 ^ Suc k" by (simp add: less_mult_imp_div_less mult.commute)
    from Suc.IH[OF this] False show ?thesis
      by (subst digits.simps) (simp del: digits.simps)
  qed
qed

lemma matches_digits:
  "\<forall>c \<in> set s. is_digit c \<Longrightarrow> matches (replicate (length s) (CHR ''d'')) s"
  by (induction s) simp_all

lemma matches_append:
  "length p = length s \<Longrightarrow> matches (p @ p') (s @ s') = (matches p s \<and> matches p' s')"
  by (induction p s rule: matches.induct) auto

lemma matches_segment:
  "length p = length f \<Longrightarrow> matches p f \<Longrightarrow> matches (p @ tail) (f @ rest) = matches tail rest"
  by (simp add: matches_append)

lemma zero_pad_shape:
  assumes "n < 10 ^ w" and "0 < w"
  shows "length (zero_pad w n) = w \<and> matches (replicate w (CHR ''d'')) (zero_pad w n)"
proof -
  from assms obtain k where w: "w = Suc k" by (cases w) auto
  from length_digits[of n k] assms have l: "length (zero_pad w n) = w"
    by (simp add: zero_pad_def w del: digits.simps)
  have "is_digit (CHR ''0'')" by (simp add: is_digit_def)
  with digits_are_digits[of n] have "\<forall>c \<in> set (zero_pad w n). is_digit c"
    by (auto simp add: zero_pad_def simp del: digits.simps)
  from matches_digits[OF this] l show ?thesis by simp
qed

lemma isoformat_iso8601:
  assumes "valid_datetime d"
  shows "iso8601 (isoformat d)"
proof -
  define P4 where "P4 = ''dddd''"
  define P2 where "P2 = ''dd''"
  define P6 where "P6 = ''dddddd''"
  have r: "replicate 4 (CHR ''d'') = P4" "replicate 2 (CHR ''d'') = P2"
    "replicate 6 (CHR ''d'') = P6"
    by (simp_all add: numeral_eq_Suc P4_def P2_def P6_def)
  from assms have b: "year d < 10 ^ 4" "month d < 10 ^ 2" "day d < 10 ^ 2"
    "hour d < 10 ^ 2" "minute d < 10 ^ 2" "second d < 10 ^ 2" "microsecond d < 10 ^ 6"
    by (simp_all add: valid_datetime_def)
  have y: "length P4 = length (zero_pad 4 (year d))" "matches P4 (zero_pad 4 (year d))"
    using zero_pad_shape[OF b(1)] by (simp_all add: r) (simp add: P4_def)
  have m: "length P2 = length (zero_pad 2 (month d))" "matches P2 (zero_pad 2 (month d))"
    using zero_pad_shape[OF b(2)] by (simp_all add: r) (simp add: P2_def)
  have dd: "length P2 = length (zero_pad 2 (day d))" "matches P2 (zero_pad 2 (day d))"
    using zero_pad_shape[OF b(3)] by (simp_all add: r) (simp add: P2_def)
  have h: "length P2 = length (zero_pad 2 (hour d))" "matches P2 (zero_pad 2 (hour d))"
    using zero_pad_shape[OF b(4)] by (simp_all add: r) (simp add: P2_def)
  have mi: "length P2 = length (zero_pad 2 (minute d))" "matches P2 (zero_pad 2 (minute d))"
    using zero_pad_shape[OF b(5)] by (simp_all add: r) (simp add: P2_def)
  have s: "length P2 = length (zero_pad 2 (second d))" "matches P2 (zero_pad 2 (second d))"
    using zero_pad_shape[OF b(6)] by (simp_all add: r) (simp add: P2_def)
  have us: "length P6 = length (zero_pad 6 (microsecond d))"
    "matches P6 (zero_pad 6 (microsecond d))"
    using zero_pad_shape[OF b(7)] by (simp_all add: r) (simp add: P6_def)
  have date: "matches (P4 @ CHR ''-'' # P2 @ CHR ''-'' # P2 @ CHR ''T'' # P2 @ CHR '':'' # P2 @
                 CHR '':'' # P2 @ tail)
        (zero_pad 4 (year d) @ CHR ''-'' # zero_pad 2 (month d) @ CHR ''-'' #
         zero_pad 2 (day d) @ CHR ''T'' # zero_pad 2 (hour d) @ CHR '':'' #
         zero_pad 2 (minute d) @ CHR '':'' # zero_pad 2 (second d) @ rest)
        = matches tail rest" for tail rest
    by (simp add: matches_segment[OF y] matches_segment[OF m] matches_segment[OF dd]
        matches_segment[OF h] matches_segment[OF mi] matches_segment[OF s])
  have p1: "''dddd-dd-ddTdd:dd:dd'' =
      P4 @ CHR ''-'' # P2 @ CHR ''-'' # P2 @ CHR ''T'' # P2 @ CHR '':'' # P2 @ CHR '':'' # P2 @ []"
    and p2: "''dddd-dd-ddTdd:dd:dd.dddddd'' =
      P4 @ CHR ''-'' # P2 @ CHR ''-'' # P2 @ CHR ''T'' # P2 @ CHR '':'' # P2 @ CHR '':'' # P2 @
      (CHR ''.'' # P6)"
    by (simp_all add: P4_def P2_def P6_def)
  show ?thesis
  proof (cases "microsecond d = 0")
    case True
    have "isoformat d = zero_pad 4 (year d) @ CHR ''-'' # zero_pad 2 (month d) @ CHR ''-'' #
         zero_pad 2 (day d) @ CHR ''T'' # zero_pad 2 (hour d) @ CHR '':'' #
         zero_pad 2 (minute d) @ CHR '':'' # zero_pad 2 (second d) @ []"
      using True by (simp add: isoformat_def)
    then have "matches ''dddd-dd-ddTdd:dd:dd'' (isoformat d)"
      unfolding p1 by (simp only: date matches.simps)
    then show ?thesis by (simp add: iso8601_def)
  next
    case False
    have frac: "matches (CHR ''.'' # P6) (CHR ''.'' # zero_pad 6 (microsecond d))"
      using us(2) by simp
    have "isoformat d = zero_pad 4 (year d) @ CHR ''-'' # zero_pad 2 (month d) @ CHR ''-'' #
         zero_pad 2 (day d) @ CHR ''T'' # zero_pad 2 (hour d) @ CHR '':'' #
         zero_pad 2 (minute d) @ CHR '':'' # zero_pad 2 (second d) @
         (CHR ''.'' # zero_pad 6 (microsecond d))"
      using False by (simp add: isoformat_def)
    then have "matches ''dddd-dd-ddTdd:dd:dd.dddddd'' (isoformat d)"
      unfolding p2 by (simp only: date frac)
    then show ?thesis by (simp add: iso8601_def)
  qed
qed

lemma finally_stats:
  "stats (handle_client_finally c s) =
     (stats s)\<lparr>active_connections := active_connections (stats s) - 1\<rparr>"
  by (simp add: handle_client_finally_def record_connection_end_def close_client_def
      ip_delays_get_def emit_def Let_def split: option.splits)

lemma hc_stats:
  assumes "setup_succeeds c s"
  shows "stats (handle_client c s) =
     (stats s)\<lparr>total_connections := total_connections (stats s) + 1,
               connections_per_ip := counter_incr (connections_per_ip (stats s)) (client_ip c)\<rparr>"
proof -
  have "stats (before_finally c s) = stats (update_statistics (client_ip c) s)"
    by (simp add: extends_fields[OF before_finally_extends] extends_fields[OF try_succeeds[OF assms]]
        after_lookup_fields)
  then show ?thesis
    by (simp add: handle_client_alt finally_stats update_statistics_def)
qed

lemma two_sources_value:
  "two_sources =
     \<lparr> total_connections = 2, active_connections = 0,
       connections_per_ip = [(''10.0.0.5'', 1), (''10.0.0.6'', 1)], start_time = t0 \<rparr>"
proof -
  define s where "s = listening default_config t0"
  have t: "connection_timeout (config s) = 300"
    by (simp add: s_def listening_fields default_config_def)
  have ok1: "setup_succeeds (quiet_conn ''10.0.0.5'') s" by (rule quiet_setup) (simp add: t)
  have ok2: "setup_succeeds (quiet_conn ''10.0.0.6'') (handle_client (quiet_conn ''10.0.0.5'') s)"
    by (rule quiet_setup) (simp add: hc_config t)
  have st: "stats s = \<lparr> total_connections = 0, active_connections = 0,
       connections_per_ip = [], start_time = t0 \<rparr>"
    by (simp add: s_def listening_def init_server_def)
  have ip: "client_ip (quiet_conn a) = a" for a by (simp add: quiet_conn_def)
  show ?thesis
    unfolding two_sources_def s_def[symmetric]
    by (simp add: hc_stats[OF ok2] hc_stats[OF ok1] st ip)
qed

text \<open>
  Claim C4, as amended. A GET for the path \<open>/stats\<close> is answered with status 200, the
  header Content-type: application/json (header names do not distinguish case) and the
  JSON text of an object with the keys \<open>total_connections\<close>, \<open>active_connections\<close>,
  \<open>connections_per_ip\<close> and \<open>start_time\<close>: the per-source mapping is a plain object
  under the name \<open>connections_per_ip\<close>, and \<open>start_time\<close> is the \<open>isoformat\<close> of the
  start time, an ISO 8601 timestamp for every valid datetime. A GET for any other path is
  answered with status 404 and an HTML body. After one connection each from 10.0.0.5 and
  10.0.0.6 the object has \<open>total_connections = 2\<close> and
  \<open>connections_per_ip = {"10.0.0.5": 1, "10.0.0.6": 1}\<close>.
\<close>

theorem stats_endpoint:
  "(path = ''/stats'' \<longrightarrow>
      fst (do_GET st client path) =
        \<lparr> status = 200,
          headers = [(''Content-type'', ''application/json'')],
          body = dumps 0 (JObject
            [(''total_connections'', JInt (total_connections st)),
             (''active_connections'', JInt (active_connections st)),
             (''connections_per_ip'',
                JObject (map (\<lambda>(ip, n). (ip, JInt n)) (connections_per_ip st))),
             (''start_time'', JStr (isoformat (start_time st)))]) \<rparr>) \<and>
   (path \<noteq> ''/stats'' \<longrightarrow>
      fst (do_GET st client path) =
        \<lparr> status = 404,
          headers = [(''Content-type'', ''text/html'')],
          body = ''<h1>404 Not Found</h1>'' \<rparr>) \<and>
   (valid_datetime (start_time st) \<longrightarrow> iso8601 (isoformat (start_time st))) \<and>
   json_get (current_stats two_sources) ''total_connections'' = Some (JInt 2) \<and>
   json_get (current_stats two_sources) ''connections_per_ip'' =
     Some (JObject [(''10.0.0.5'', JInt 1), (''10.0.0.6'', JInt 1)])"
  by (simp add: do_GET_def current_stats_def isoformat_iso8601 two_sources_value)

lemma isoformat_t0: "isoformat t0 = ''2024-01-02T03:04:05''"
  by (simp add: isoformat_def t0_def zero_pad_def)

lemma dumps_two_sources: "dumps 0 (current_stats two_sources) = two_sources_body"
  by (simp add: two_sources_value current_stats_def isoformat_t0 two_sources_body_def
      quoted_def json_string_def json_escape_def str_int_def newline_indent_def
      numeral_eq_Suc)

text \<open>The two requests in the scenario of the claim, with the whole body as text.\<close>

theorem stats_endpoint_witness:
  "fst (do_GET two_sources ''127.0.0.1'' ''/stats'') =
     \<lparr> status = 200, headers = [(''Content-type'', ''application/json'')],
       body = two_sources_body \<rparr> \<and>
   ''/index.html'' \<noteq> ''/stats'' \<and>
   fst (do_GET two_sources ''127.0.0.1'' ''/index.html'') =
     \<lparr> status = 404, headers = [(''Content-type'', ''text/html'')],
       body = ''<h1>404 Not Found</h1>'' \<rparr> \<and>
   valid_datetime (start_time two_sources) \<and>
   iso8601 (isoformat (start_time two_sources)) \<and>
   isoformat (start_time two_sources) = ''2024-01-02T03:04:05''"
proof -
  have v: "valid_datetime (start_time two_sources)"
    by (simp add: two_sources_value valid_datetime_def t0_def)
  have i: "isoformat (start_time two_sources) = ''2024-01-02T03:04:05''"
    by (simp add: two_sources_value isoformat_t0)
  have b: "dumps 0 (JObject
            [(''total_connections'', JInt (total_connections two_sources)),
             (''active_connections'', JInt (active_connections two_sources)),
             (''connections_per_ip'',
                JObject (map (\<lambda>(ip, n). (ip, JInt n)) (connections_per_ip two_sources))),
             (''start_time'', JStr (isoformat (start_time two_sources)))]) = two_sources_body"
    using dumps_two_sources by (simp only: current_stats_def)
  have n: "''/index.html'' \<noteq> ''/stats''" by simp
  from stats_endpoint[of "''/stats''" two_sources "''127.0.0.1''"]
  have 1: "fst (do_GET two_sources ''127.0.0.1'' ''/stats'') =
     \<lparr> status = 200, headers = [(''Content-type'', ''application/json'')],
       body = two_sources_body \<rparr>"
    unfolding b by blast
  from stats_endpoint[of "''/index.html''" two_sources "''127.0.0.1''"] n
  have 2: "fst (do_GET two_sources ''127.0.0.1'' ''/index.html'') =
     \<lparr> status = 404, headers = [(''Content-type'', ''text/html'')],
       body = ''<h1>404 Not Found</h1>'' \<rparr>"
    by blast
  from stats_endpoint[of "''/stats''" two_sources "''127.0.0.1''"] v
  have 3: "iso8601 (isoformat (start_time two_sources))" by blast
  from 1 n 2 v 3 i show ?thesis by blast
qed

text \<open>
  The name in the claim is not the one in the response: in the scenario the object has no
  key \<open>connections_per_source\<close>, and that word does not occur in the body; the mapping
  is under \<open>connections_per_ip\<close>.
\<close>

theorem stats_endpoint_counterexample:
  "json_get (current_stats two_sources) ''connections_per_source'' = None \<and>
   \<not> contains (body (fst (do_GET two_sources ''127.0.0.1'' ''/stats'')))
       ''connections_per_source'' \<and>
   contains (body (fst (do_GET two_sources ''127.0.0.1'' ''/stats''))) ''connections_per_ip''"
proof -
  have b: "body (fst (do_GET two_sources ''127.0.0.1'' ''/stats'')) = two_sources_body"
    by (simp add: do_GET_def dumps_two_sources)
  have 1: "json_get (current_stats two_sources) ''connections_per_source'' = None"
    by (simp add: current_stats_def)
  have 2: "\<not> contains two_sources_body ''connections_per_source''"
    by (simp add: two_sources_body_def quoted_def)
  have 3: "contains two_sources_body ''connections_per_ip''"
    by (simp add: two_sources_body_def quoted_def)
  from 1 2 3 show ?thesis unfolding b by blast
qed

end
